theory Spec2Isabelle
  imports Complex_Main
begin

section \<open>Crumbl sales predictor: data model\<close>

text \<open>
  The program is one script, \<^verbatim>\<open>crumbl_app.py\<close>. Its own logic is the data loader
  \<^verbatim>\<open>load_data\<close>, the feature encoding inside \<^verbatim>\<open>make_prediction\<close> and the
  recommendation arithmetic under the \<^verbatim>\<open>Generate Prediction\<close> button. The regression
  model, the CSV reader and the random generator are collaborators and appear here as
  parameters. The pandas and numpy operations the script calls are written out as
  functions on lists.

  Numbers: the values of the encoded frame are Python integers (\<open>int\<close>). Predictions and
  sales averages are finite floating-point numbers, idealised as \<open>real\<close>: rounding is
  not modelled. The one place where a non-finite value arises from finite operands,
  the division by the sales average, is written out (\<open>np_float\<close>).
\<close>

datatype py_error = KeyError | IndexError | TypeError | ValueError | OSError | ZeroDivisionError

definition bind_err :: "py_error + 'a \<Rightarrow> ('a \<Rightarrow> py_error + 'b) \<Rightarrow> py_error + 'b" where
  "bind_err r f = (case r of Inl e \<Rightarrow> Inl e | Inr x \<Rightarrow> f x)"

subsection \<open>The one-row input frame\<close>

text \<open>
  \<^verbatim>\<open>input_data\<close> is a pandas DataFrame with the single row \<open>0\<close>: a sequence of
  labelled columns, each holding one integer. Column order matters, so it is an
  association list.
  \<^item> \<^verbatim>\<open>pd.DataFrame(0, index=[0], columns=cs)\<close> has the columns \<open>cs\<close>, all \<open>0\<close>.
  \<^item> \<^verbatim>\<open>fr[k] = v\<close> overwrites every column labelled \<open>k\<close>; when there is none it
    appends a new column \<open>k\<close> at the end. It never raises.
  \<^item> \<^verbatim>\<open>fr[keys]\<close> raises \<open>KeyError\<close> when a key is not a column label; otherwise it
    returns, key by key, the columns carrying that label.
\<close>

type_synonym frame = "(string \<times> int) list"

definition DataFrame :: "int \<Rightarrow> string list \<Rightarrow> frame" where
  "DataFrame v cs = map (\<lambda>c. (c, v)) cs"

definition columns :: "frame \<Rightarrow> string list" where
  "columns fr = map fst fr"

definition setitem :: "frame \<Rightarrow> string \<Rightarrow> int \<Rightarrow> frame" where
  "setitem fr k v =
     (if k \<in> set (columns fr)
      then map (\<lambda>(c, x). if c = k then (c, v) else (c, x)) fr
      else fr @ [(k, v)])"

definition getitem_list :: "frame \<Rightarrow> string list \<Rightarrow> py_error + frame" where
  "getitem_list fr keys =
     (if list_all (\<lambda>k. k \<in> set (columns fr)) keys
      then Inr (concat (map (\<lambda>k. filter (\<lambda>(c, x). c = k) fr) keys))
      else Inl KeyError)"

subsection \<open>The sidebar selection\<close>

record selection =
  flavor_selected :: string
  weather_selected :: string
  location_selected :: string
  is_holiday :: bool
  social_mentions :: int

definition int_of_bool :: "bool \<Rightarrow> int" where
  "int_of_bool b = (if b then 1 else 0)"

definition weather_col :: "selection \<Rightarrow> string" where
  "weather_col sel = ''weather_'' @ weather_selected sel"

definition flavor_col :: "selection \<Rightarrow> string" where
  "flavor_col sel = ''flavor_'' @ flavor_selected sel"

definition location_col :: "selection \<Rightarrow> string" where
  "location_col sel = ''location_'' @ location_selected sel"

subsection \<open>Feature encoding (make\_prediction, up to the call of the model)\<close>

text \<open>
  Lines 126 to 146 of the script. The two numeric columns are assigned without a
  presence test; the three indicator columns are assigned only when their label is
  among the frame's columns at that moment; the last step selects the schema's
  columns, in the schema's order.
\<close>

definition encode :: "selection \<Rightarrow> string list \<Rightarrow> py_error + frame" where
  "encode sel feature_columns =
     (let input_data = DataFrame 0 feature_columns;
          input_data = setitem input_data ''holiday'' (int_of_bool (is_holiday sel));
          input_data = setitem input_data ''social_media_mentions'' (social_mentions sel);
          input_data = (if weather_col sel \<in> set (columns input_data)
                        then setitem input_data (weather_col sel) 1 else input_data);
          input_data = (if flavor_col sel \<in> set (columns input_data)
                        then setitem input_data (flavor_col sel) 1 else input_data);
          input_data = (if location_col sel \<in> set (columns input_data)
                        then setitem input_data (location_col sel) 1 else input_data)
      in getitem_list input_data feature_columns)"

text \<open>
  The model is opaque: \<^verbatim>\<open>model.predict(input_data)\<close> returns an array or raises.
  \<^verbatim>\<open>make_prediction\<close> catches every exception of its body and returns \<^verbatim>\<open>None\<close>.
\<close>

type_synonym predictor = "frame \<Rightarrow> py_error + real list"

definition first_element :: "real list \<Rightarrow> py_error + real" where
  "first_element ys = (case ys of [] \<Rightarrow> Inl IndexError | y # _ \<Rightarrow> Inr y)"

definition make_prediction :: "predictor \<Rightarrow> string list \<Rightarrow> selection \<Rightarrow> real option" where
  "make_prediction model feature_columns sel =
     (case bind_err (encode sel feature_columns) (\<lambda>input_data.
             bind_err (model input_data) first_element) of
        Inl e \<Rightarrow> None
      | Inr y \<Rightarrow> Some y)"

subsection \<open>Recommendation arithmetic\<close>

text \<open>
  \<^verbatim>\<open>avg_sales\<close> is an element of the float64 Series that pandas' \<^verbatim>\<open>mean()\<close>
  returns, so \<^verbatim>\<open>prediction / avg_sales\<close> is numpy's scalar division. It does not
  raise: a zero divisor gives \<open>inf\<close>, \<open>-inf\<close> or \<open>nan\<close> (numpy only emits a warning),
  and the following subtraction, multiplication and comparisons follow IEEE 754.
\<close>

datatype np_float = Fin real | PInf | NInf | NaN

definition np_truediv :: "real \<Rightarrow> real \<Rightarrow> np_float" where
  "np_truediv x y =
     (if y = 0 then (if 0 < x then PInf else if x < 0 then NInf else NaN)
      else Fin (x / y))"

fun np_sub :: "np_float \<Rightarrow> real \<Rightarrow> np_float" where
  "np_sub (Fin x) y = Fin (x - y)"
| "np_sub PInf y = PInf"
| "np_sub NInf y = NInf"
| "np_sub NaN y = NaN"

fun np_mul :: "np_float \<Rightarrow> real \<Rightarrow> np_float" where
  "np_mul (Fin x) y = Fin (x * y)"
| "np_mul PInf y = (if 0 < y then PInf else if y < 0 then NInf else NaN)"
| "np_mul NInf y = (if 0 < y then NInf else if y < 0 then PInf else NaN)"
| "np_mul NaN y = NaN"

fun np_gt :: "np_float \<Rightarrow> real \<Rightarrow> bool" where
  "np_gt (Fin x) y = (y < x)"
| "np_gt PInf y = True"
| "np_gt NInf y = False"
| "np_gt NaN y = False"

fun np_lt :: "np_float \<Rightarrow> real \<Rightarrow> bool" where
  "np_lt (Fin x) y = (x < y)"
| "np_lt PInf y = False"
| "np_lt NInf y = True"
| "np_lt NaN y = False"

text \<open>
  \<^verbatim>\<open>prediction // d\<close> for the literal divisors 12 and 150 is the floor of the
  quotient, as a float; \<^verbatim>\<open>int(...)\<close> truncates a float towards zero.
\<close>

definition np_floor_divide :: "real \<Rightarrow> real \<Rightarrow> real" where
  "np_floor_divide x d = of_int \<lfloor>x / d\<rfloor>"

definition py_int :: "real \<Rightarrow> int" where
  "py_int x = (if 0 \<le> x then \<lfloor>x\<rfloor> else \<lceil>x\<rceil>)"

definition batches_needed :: "real \<Rightarrow> int" where
  "batches_needed prediction = py_int (np_floor_divide prediction 12)"

definition staff_estimate :: "real \<Rightarrow> int" where
  "staff_estimate prediction = py_int (np_floor_divide prediction 150)"

text \<open>
  The three message boxes of lines 224 to 240. The surge box carries the batch count
  and the number of extra bakers; the other two are fixed texts. \<open>evaluate\<close> collects
  what lines 172, 208 and 224 to 240 compute from the prediction and the average.
\<close>

datatype action_bundle = Surge int int | Slump | Steady

record recommendation =
  change_pct :: np_float
  batches :: int
  actions :: action_bundle

definition evaluate :: "real \<Rightarrow> real \<Rightarrow> recommendation" where
  "evaluate prediction avg_sales =
     (let pct = np_mul (np_sub (np_truediv prediction avg_sales) 1) 100
      in \<lparr>change_pct = pct,
          batches = batches_needed prediction,
          actions = (if np_gt pct 15
                    then Surge (batches_needed prediction) (staff_estimate prediction)
                    else if np_lt pct (- 10) then Slump
                    else Steady)\<rparr>)"

subsection \<open>The historical dataset\<close>

text \<open>
  \<^verbatim>\<open>df\<close> is a pandas DataFrame: a row count and a sequence of labelled columns of
  cells. \<^verbatim>\<open>read_csv\<close> gives every column a distinct label.
\<close>

datatype cell = IntCell int | FloatCell real | StrCell string

record dataset =
  n_rows :: nat
  cols :: "(string \<times> cell list) list"

definition labels :: "dataset \<Rightarrow> string list" where
  "labels d = map fst (cols d)"

definition rename :: "dataset \<Rightarrow> string \<Rightarrow> string \<Rightarrow> dataset" where
  "rename d old new = d\<lparr>cols := map (\<lambda>(c, vs). (if c = old then new else c, vs)) (cols d)\<rparr>"

definition set_column :: "dataset \<Rightarrow> string \<Rightarrow> cell list \<Rightarrow> dataset" where
  "set_column d k vs =
     (if k \<in> set (labels d)
      then d\<lparr>cols := map (\<lambda>(c, ws). if c = k then (c, vs) else (c, ws)) (cols d)\<rparr>
      else d\<lparr>cols := cols d @ [(k, vs)]\<rparr>)"

text \<open>
  \<^verbatim>\<open>np.random.randint(low, high, size=n)\<close>: \<open>n\<close> draws from the generator, each
  mapped into the half-open range from \<open>low\<close> to \<open>high\<close>. The generator's raw output
  is the parameter \<open>raw\<close>.
\<close>

definition randint :: "int \<Rightarrow> int \<Rightarrow> nat \<Rightarrow> (nat \<Rightarrow> nat) \<Rightarrow> int list" where
  "randint low high n raw = map (\<lambda>i. low + int (raw i) mod (high - low)) [0..<n]"

text \<open>
  \<^verbatim>\<open>load_data\<close>. The result of \<^verbatim>\<open>pd.read_csv\<close> is a parameter: the table read, or
  the exception raised. An exception ends in \<^verbatim>\<open>st.stop()\<close>: no dataset is returned.
\<close>

definition load_data :: "py_error + dataset \<Rightarrow> (nat \<Rightarrow> nat) \<Rightarrow> py_error + dataset" where
  "load_data read_csv raw =
     (case read_csv of
        Inl e \<Rightarrow> Inl e
      | Inr df \<Rightarrow>
          if ''sales'' \<in> set (labels df) then Inr (rename df ''sales'' ''units_sold'')
          else if ''units_sold'' \<notin> set (labels df)
          then Inr (set_column df ''units_sold''
                      (map IntCell (randint 50 200 (n_rows df) raw)))
          else Inr df)"

subsection \<open>Reading the dataset: selection of rows, grouped means\<close>

text \<open>
  \<^verbatim>\<open>df[name]\<close> raises \<open>KeyError\<close> for an unknown label. A label carried by two
  columns (possible only for \<open>units_sold\<close>, after the renaming of \<open>sales\<close> in a table
  that had both) does not give a single column; the model reports \<open>ValueError\<close> there.
\<close>

definition getcol :: "dataset \<Rightarrow> string \<Rightarrow> py_error + cell list" where
  "getcol d name =
     (case filter (\<lambda>(c, vs). c = name) (cols d) of
        [] \<Rightarrow> Inl KeyError
      | [(c, vs)] \<Rightarrow> Inr vs
      | _ \<Rightarrow> Inl ValueError)"

definition filter_rows :: "dataset \<Rightarrow> bool list \<Rightarrow> dataset" where
  "filter_rows d keep =
     \<lparr>n_rows = length (filter id keep),
      cols = map (\<lambda>(c, vs). (c, map snd (filter fst (zip keep vs)))) (cols d)\<rparr>"

definition flavor_rows :: "dataset \<Rightarrow> string \<Rightarrow> py_error + dataset" where
  "flavor_rows d flavor =
     bind_err (getcol d ''flavor'') (\<lambda>fl.
       Inr (filter_rows d (map (\<lambda>x. x = StrCell flavor) fl)))"

fun cell_num :: "cell \<Rightarrow> real option" where
  "cell_num (IntCell i) = Some (of_int i)"
| "cell_num (FloatCell x) = Some x"
| "cell_num (StrCell s) = None"

fun str_le :: "string \<Rightarrow> string \<Rightarrow> bool" where
  "str_le [] ys = True"
| "str_le (x # xs) [] = False"
| "str_le (x # xs) (y # ys) =
     (if (of_char x :: nat) < of_char y then True
      else if (of_char x :: nat) = of_char y then str_le xs ys
      else False)"

fun cell_le :: "cell \<Rightarrow> cell \<Rightarrow> bool" where
  "cell_le (StrCell a) (StrCell b) = str_le a b"
| "cell_le (StrCell a) b = False"
| "cell_le a (StrCell b) = True"
| "cell_le a b = (the (cell_num a) \<le> the (cell_num b))"

fun insert_cell :: "cell \<Rightarrow> cell list \<Rightarrow> cell list" where
  "insert_cell k [] = [k]"
| "insert_cell k (x # xs) = (if cell_le k x then k # x # xs else x # insert_cell k xs)"

fun sort_cells :: "cell list \<Rightarrow> cell list" where
  "sort_cells [] = []"
| "sort_cells (k # ks) = insert_cell k (sort_cells ks)"

definition mean :: "real list \<Rightarrow> real" where
  "mean xs = sum_list xs / real (length xs)"

text \<open>
  \<^verbatim>\<open>frame.groupby(key)[value].mean()\<close>: one entry per distinct key, keys sorted, each
  with the mean of its rows (every group has at least one row). A text cell in the
  value column raises \<open>TypeError\<close>.
\<close>

definition groupby_mean :: "dataset \<Rightarrow> string \<Rightarrow> string \<Rightarrow> py_error + (cell \<times> real) list" where
  "groupby_mean d key val =
     bind_err (getcol d key) (\<lambda>ks.
     bind_err (getcol d val) (\<lambda>vs.
       case those (map cell_num vs) of
         None \<Rightarrow> Inl TypeError
       | Some xs \<Rightarrow>
           Inr (map (\<lambda>k. (k, mean (map snd (filter (\<lambda>(k', x). k' = k) (zip ks xs)))))
                  (sort_cells (remdups ks)))))"

definition series_getitem :: "(cell \<times> real) list \<Rightarrow> cell \<Rightarrow> py_error + real" where
  "series_getitem ser k = (case map_of ser k of None \<Rightarrow> Inl KeyError | Some x \<Rightarrow> Inr x)"

subsection \<open>One press of the button\<close>

text \<open>
  The module-level state of the script: the dataset, the model and the schema, loaded
  once. A press of the button runs \<^verbatim>\<open>make_prediction\<close>, tests the truth value of its
  result, and, when it is true, derives the recommendation and the three chart
  tables (lines 166 to 283). The function returns what is shown together with the
  state afterwards. An exception outside \<^verbatim>\<open>make_prediction\<close> is not caught: the
  run ends with that exception, and what had been drawn before it is not recorded.
  \<^verbatim>\<open>px.box\<close> reports a missing column as \<open>ValueError\<close>.
\<close>

record session =
  df :: dataset
  model :: predictor
  feature_columns :: "string list"

record outputs =
  scenario :: "string \<times> string \<times> string \<times> bool"
  predicted_sales :: real
  advice :: recommendation
  weekly_data :: "(cell \<times> real) list option"
  weather_data :: "(cell \<times> cell) list"
  loc_data :: "(cell \<times> real) list"

definition truthy :: "real option \<Rightarrow> bool" where
  "truthy prediction = (case prediction of None \<Rightarrow> False | Some x \<Rightarrow> x \<noteq> 0)"

definition avg_sales_of :: "dataset \<Rightarrow> string \<Rightarrow> py_error + real" where
  "avg_sales_of d flavor =
     bind_err (groupby_mean d ''flavor'' ''units_sold'') (\<lambda>ser.
       series_getitem ser (StrCell flavor))"

definition weekly_chart :: "dataset \<Rightarrow> string \<Rightarrow> py_error + (cell \<times> real) list option" where
  "weekly_chart d flavor =
     (if ''week'' \<in> set (labels d)
      then bind_err (flavor_rows d flavor) (\<lambda>sub.
           bind_err (groupby_mean sub ''week'' ''units_sold'') (\<lambda>t. Inr (Some t)))
      else Inr None)"

definition plot_column :: "dataset \<Rightarrow> string \<Rightarrow> py_error + cell list" where
  "plot_column d name = (case getcol d name of Inl e \<Rightarrow> Inl ValueError | Inr vs \<Rightarrow> Inr vs)"

definition weather_chart :: "dataset \<Rightarrow> string \<Rightarrow> py_error + (cell \<times> cell) list" where
  "weather_chart d flavor =
     bind_err (flavor_rows d flavor) (\<lambda>sub.
     bind_err (plot_column sub ''weather'') (\<lambda>ws.
     bind_err (plot_column sub ''units_sold'') (\<lambda>us. Inr (zip ws us))))"

definition location_chart :: "dataset \<Rightarrow> string \<Rightarrow> py_error + (cell \<times> real) list" where
  "location_chart d flavor =
     bind_err (flavor_rows d flavor) (\<lambda>sub. groupby_mean sub ''location'' ''units_sold'')"

definition render :: "session \<Rightarrow> selection \<Rightarrow> real option \<Rightarrow> (py_error + outputs option) \<times> session" where
  "render s sel prediction =
     (if truthy prediction
      then (bind_err (avg_sales_of (df s) (flavor_selected sel)) (\<lambda>avg_sales.
            bind_err (weekly_chart (df s) (flavor_selected sel)) (\<lambda>weekly.
            bind_err (weather_chart (df s) (flavor_selected sel)) (\<lambda>box.
            bind_err (location_chart (df s) (flavor_selected sel)) (\<lambda>loc.
              Inr (Some \<lparr>scenario = (flavor_selected sel, weather_selected sel,
                                      location_selected sel, is_holiday sel),
                         predicted_sales = the prediction,
                         advice = evaluate (the prediction) avg_sales,
                         weekly_data = weekly,
                         weather_data = box,
                         loc_data = loc\<rparr>))))),
            s)
      else (Inr None, s))"

definition generate_prediction :: "session \<Rightarrow> selection \<Rightarrow> (py_error + outputs option) \<times> session" where
  "generate_prediction s sel =
     render s sel (make_prediction (model s) (feature_columns s) sel)"

subsection \<open>Example data\<close>

text \<open>
  A model that predicts the same value for every input, a table in which the only
  flavor never sold anything, and a selection of that flavor.
\<close>

definition const_model :: "real \<Rightarrow> predictor" where
  "const_model y fr = Inr [y]"


definition oreo_selection :: selection where
  "oreo_selection =
     \<lparr>flavor_selected = ''Oreo'', weather_selected = ''Sunny'',
      location_selected = ''Provo'', is_holiday = True, social_mentions = 42\<rparr>"

definition small_schema :: "string list" where
  "small_schema =
     [''social_media_mentions'', ''weather_Sunny'', ''weather_Rainy'', ''flavor_Oreo'',
      ''holiday'', ''location_Provo'']"

definition flavor_only_df :: dataset where
  "flavor_only_df = \<lparr>n_rows = 2, cols = [(''flavor'', [StrCell ''Oreo'', StrCell ''Pink Sugar''])]\<rparr>"

definition counting_raw :: "nat \<Rightarrow> nat" where
  "counting_raw i = 149 + i"

subsection \<open>Auxiliary notions for the proofs\<close>

text \<open>
  \<open>repr S f fr\<close>: the frame \<open>fr\<close> starts with the columns \<open>S\<close>, carrying the values
  \<open>f\<close>, followed by columns whose labels are not in \<open>S\<close>. \<open>cell_value\<close> is the
  value the encoding leaves under each label.
\<close>

definition repr :: "string list \<Rightarrow> (string \<Rightarrow> int) \<Rightarrow> frame \<Rightarrow> bool" where
  "repr S f fr = (\<exists>ex. fr = map (\<lambda>c. (c, f c)) S @ ex \<and> set (map fst ex) \<inter> set S = {})"

definition cell_value :: "selection \<Rightarrow> string \<Rightarrow> int" where
  "cell_value sel c =
     (if c = location_col sel \<or> c = flavor_col sel \<or> c = weather_col sel then 1
      else if c = ''social_media_mentions'' then social_mentions sel
      else if c = ''holiday'' then int_of_bool (is_holiday sel)
      else 0)"


section \<open>Properties of the feature encoding\<close>

lemma repr_DataFrame: "repr S (\<lambda>_. v) (DataFrame v S)"
  by (simp add: repr_def DataFrame_def)

lemma repr_cong:
  assumes r: "repr S f fr" and fg: "\<And>c. c \<in> set S \<Longrightarrow> f c = g c"
  shows "repr S g fr"
proof -
  from r obtain ex where fr: "fr = map (\<lambda>c. (c, f c)) S @ ex"
    and ex: "set (map fst ex) \<inter> set S = {}"
    unfolding repr_def by blast
  have "map (\<lambda>c. (c, f c)) S = map (\<lambda>c. (c, g c)) S"
    using fg by simp
  with fr ex show "repr S g fr"
    unfolding repr_def by blast
qed

lemma repr_setitem:
  assumes "repr S f fr"
  shows "repr S (f(k := v)) (setitem fr k v)"
proof -
  from assms obtain ex where fr: "fr = map (\<lambda>c. (c, f c)) S @ ex"
    and ex: "set (map fst ex) \<inter> set S = {}"
    unfolding repr_def by blast
  show ?thesis
  proof (cases "k \<in> set (columns fr)")
    case True
    let ?u = "\<lambda>(c, x). if c = k then (c, v) else (c, x :: int)"
    have "setitem fr k v = map (\<lambda>c. (c, (f(k := v)) c)) S @ map ?u ex"
      using True by (simp add: setitem_def fr)
    moreover have "map fst (map ?u ex) = map fst ex"
      by (induction ex) (auto split: prod.splits)
    ultimately have "setitem fr k v = map (\<lambda>c. (c, (f(k := v)) c)) S @ map ?u ex
        \<and> set (map fst (map ?u ex)) \<inter> set S = {}"
      using ex by simp
    then show ?thesis
      unfolding repr_def by (rule exI)
  next
    case False
    then have kS: "k \<notin> set S" by (auto simp: fr columns_def image_iff)
    have "map (\<lambda>c. (c, (f(k := v)) c)) S = map (\<lambda>c. (c, f c)) S"
      using kS by (induction S) auto
    then have "setitem fr k v = map (\<lambda>c. (c, (f(k := v)) c)) S @ (ex @ [(k, v)])"
      using False by (simp add: setitem_def fr)
    moreover have "set (map fst (ex @ [(k, v)])) \<inter> set S = {}"
      using ex kS by auto
    ultimately show ?thesis unfolding repr_def by blast
  qed
qed

lemma repr_indicator:
  assumes "repr S f fr"
  shows "repr S (f(k := v)) (if k \<in> set (columns fr) then setitem fr k v else fr)"
proof (cases "k \<in> set (columns fr)")
  case True
  then show ?thesis using repr_setitem [OF assms] by simp
next
  case False
  from assms obtain ex where fr: "fr = map (\<lambda>c. (c, f c)) S @ ex"
    unfolding repr_def by blast
  have "k \<notin> set S" using False by (auto simp: fr columns_def image_iff)
  then have "repr S (f(k := v)) fr"
    by (intro repr_cong [OF assms]) auto
  then show ?thesis using False by simp
qed

lemma filter_key_distinct:
  "distinct S \<Longrightarrow> k \<in> set S \<Longrightarrow> filter (\<lambda>(c, x). c = k) (map (\<lambda>c. (c, f c)) S) = [(k, f k)]"
  by (induction S) (auto simp: filter_empty_conv)

lemma filter_key_absent:
  "k \<notin> set (map fst ex) \<Longrightarrow> filter (\<lambda>(c, x). c = k) ex = []"
  by (induction ex) auto

lemma concat_filter_keys:
  assumes "distinct S" and "set (map fst ex) \<inter> set S = {}" and "set T \<subseteq> set S"
  shows "concat (map (\<lambda>k. filter (\<lambda>(c, x). c = k) (map (\<lambda>c. (c, f c)) S @ ex)) T)
         = map (\<lambda>c. (c, f c)) T"
  using assms(3)
proof (induction T)
  case Nil
  then show ?case by simp
next
  case (Cons k T)
  then have k: "k \<in> set S" by simp
  then have "k \<notin> set (map fst ex)" using assms(2) by auto
  then have "filter (\<lambda>(c, x). c = k) ex = []" by (rule filter_key_absent)
  with Cons k show ?case
    by (simp add: filter_key_distinct [OF assms(1)])
qed

lemma getitem_list_repr:
  assumes "repr S f fr" and "distinct S"
  shows "getitem_list fr S = Inr (map (\<lambda>c. (c, f c)) S)"
proof -
  from assms obtain ex where fr: "fr = map (\<lambda>c. (c, f c)) S @ ex"
    and ex: "set (map fst ex) \<inter> set S = {}"
    unfolding repr_def by blast
  have "list_all (\<lambda>k. k \<in> set (columns fr)) S"
    by (auto simp: list_all_iff fr columns_def image_iff)
  then show ?thesis
    using concat_filter_keys [OF assms(2) ex subset_refl, of f]
    by (simp add: getitem_list_def fr)
qed

lemma encode_repr:
  "\<exists>fr. repr S (cell_value sel) fr \<and> encode sel S = getitem_list fr S"
proof -
  let ?f0 = "(\<lambda>_. 0) :: string \<Rightarrow> int"
  let ?f1 = "?f0(''holiday'' := int_of_bool (is_holiday sel))"
  let ?f2 = "?f1(''social_media_mentions'' := social_mentions sel)"
  let ?f3 = "?f2(weather_col sel := 1)"
  let ?f4 = "?f3(flavor_col sel := 1)"
  let ?f5 = "?f4(location_col sel := 1)"
  define d1 where "d1 = setitem (DataFrame 0 S) ''holiday'' (int_of_bool (is_holiday sel))"
  define d2 where "d2 = setitem d1 ''social_media_mentions'' (social_mentions sel)"
  define d3 where "d3 = (if weather_col sel \<in> set (columns d2)
                         then setitem d2 (weather_col sel) 1 else d2)"
  define d4 where "d4 = (if flavor_col sel \<in> set (columns d3)
                         then setitem d3 (flavor_col sel) 1 else d3)"
  define d5 where "d5 = (if location_col sel \<in> set (columns d4)
                         then setitem d4 (location_col sel) 1 else d4)"
  have r1: "repr S ?f1 d1"
    unfolding d1_def by (rule repr_setitem [OF repr_DataFrame])
  have r2: "repr S ?f2 d2"
    unfolding d2_def by (rule repr_setitem [OF r1])
  have r3: "repr S ?f3 d3"
    unfolding d3_def by (rule repr_indicator [OF r2])
  have r4: "repr S ?f4 d4"
    unfolding d4_def by (rule repr_indicator [OF r3])
  have r5: "repr S ?f5 d5"
    unfolding d5_def by (rule repr_indicator [OF r4])
  have eq: "?f5 = cell_value sel"
    by (auto simp: cell_value_def fun_eq_iff)
  have "encode sel S = getitem_list d5 S"
    unfolding encode_def Let_def d5_def d4_def d3_def d2_def d1_def by (rule refl)
  with r5 show ?thesis unfolding eq by blast
qed

lemma encode_distinct:
  assumes "distinct S"
  shows "encode sel S = Inr (map (\<lambda>c. (c, cell_value sel c)) S)"
proof -
  obtain fr where r: "repr S (cell_value sel) fr" and e: "encode sel S = getitem_list fr S"
    using encode_repr by blast
  show ?thesis
    unfolding e by (rule getitem_list_repr [OF r assms])
qed

lemma encode_succeeds: "\<exists>fr. encode sel S = Inr fr"
proof -
  obtain fr where r: "repr S (cell_value sel) fr" and e: "encode sel S = getitem_list fr S"
    using encode_repr by blast
  from r obtain ex where fr: "fr = map (\<lambda>c. (c, cell_value sel c)) S @ ex"
    unfolding repr_def by blast
  have "list_all (\<lambda>k. k \<in> set (columns fr)) S"
    by (auto simp: list_all_iff fr columns_def image_iff)
  then show ?thesis unfolding e by (simp add: getitem_list_def)
qed

lemma make_prediction_const: "make_prediction (const_model y) S sel = Some y"
proof -
  obtain fr where "encode sel S = Inr fr"
    using encode_succeeds by blast
  then show ?thesis
    by (simp add: make_prediction_def bind_err_def const_model_def first_element_def)
qed

text \<open>
  C1. When the schema has distinct names and contains the three derived indicator
  names, \<open>holiday\<close> and \<open>social_media_mentions\<close>, the encoder returns the schema's
  columns in the schema's order, with 1 at the three indicator columns, the holiday
  flag as 1 or 0 at \<open>holiday\<close>, the mention count at \<open>social_media_mentions\<close>, and 0
  everywhere else.
\<close>

theorem encode_all_present:
  assumes "distinct S"
    and "weather_col sel \<in> set S" and "flavor_col sel \<in> set S"
    and "location_col sel \<in> set S"
    and "''holiday'' \<in> set S" and "''social_media_mentions'' \<in> set S"
  shows "\<exists>fr. encode sel S = Inr fr
           \<and> fr = map (\<lambda>c. (c,
                    if c = weather_col sel \<or> c = flavor_col sel \<or> c = location_col sel then 1
                    else if c = ''holiday'' then (if is_holiday sel then 1 else 0)
                    else if c = ''social_media_mentions'' then social_mentions sel
                    else 0)) S
           \<and> columns fr = S
           \<and> (weather_col sel, 1) \<in> set fr \<and> (flavor_col sel, 1) \<in> set fr
           \<and> (location_col sel, 1) \<in> set fr
           \<and> (''holiday'', if is_holiday sel then 1 else 0) \<in> set fr
           \<and> (''social_media_mentions'', social_mentions sel) \<in> set fr"
proof -
  let ?g = "\<lambda>c. if c = weather_col sel \<or> c = flavor_col sel \<or> c = location_col sel then 1
                 else if c = ''holiday'' then (if is_holiday sel then 1 else 0)
                 else if c = ''social_media_mentions'' then social_mentions sel
                 else (0::int)"
  have g: "cell_value sel = ?g"
    by (auto simp: cell_value_def fun_eq_iff int_of_bool_def)
  have e: "encode sel S = Inr (map (\<lambda>c. (c, ?g c)) S)"
    using encode_distinct [OF assms(1), of sel] unfolding g .
  have m: "(c, ?g c) \<in> set (map (\<lambda>c. (c, ?g c)) S)" if "c \<in> set S" for c
    using that by (simp add: image_iff)
  have h: "?g ''holiday'' = (if is_holiday sel then 1 else 0)"
    by (simp add: weather_col_def flavor_col_def location_col_def)
  have sm: "?g ''social_media_mentions'' = social_mentions sel"
    by (simp add: weather_col_def flavor_col_def location_col_def)
  have "(weather_col sel, 1) \<in> set (map (\<lambda>c. (c, ?g c)) S)"
    using m [OF assms(2)] by simp
  moreover have "(flavor_col sel, 1) \<in> set (map (\<lambda>c. (c, ?g c)) S)"
    using m [OF assms(3)] by simp
  moreover have "(location_col sel, 1) \<in> set (map (\<lambda>c. (c, ?g c)) S)"
    using m [OF assms(4)] by simp
  moreover have "(''holiday'', if is_holiday sel then 1 else 0) \<in> set (map (\<lambda>c. (c, ?g c)) S)"
    using m [OF assms(5)] unfolding h .
  moreover have "(''social_media_mentions'', social_mentions sel) \<in> set (map (\<lambda>c. (c, ?g c)) S)"
    using m [OF assms(6)] unfolding sm .
  moreover have "columns (map (\<lambda>c. (c, ?g c)) S) = S"
    by (simp add: columns_def comp_def)
  ultimately show ?thesis using e by blast
qed

theorem encode_all_present_witness:
  "distinct small_schema
   \<and> weather_col oreo_selection \<in> set small_schema
   \<and> flavor_col oreo_selection \<in> set small_schema
   \<and> location_col oreo_selection \<in> set small_schema
   \<and> ''holiday'' \<in> set small_schema \<and> ''social_media_mentions'' \<in> set small_schema
   \<and> encode oreo_selection small_schema =
       Inr [(''social_media_mentions'', 42), (''weather_Sunny'', 1), (''weather_Rainy'', 0),
            (''flavor_Oreo'', 1), (''holiday'', 1), (''location_Provo'', 1)]"
  using encode_all_present [of small_schema oreo_selection]
  by (simp add: small_schema_def oreo_selection_def weather_col_def flavor_col_def
      location_col_def)

lemma cell_value_holiday_absent:
  "c \<noteq> ''holiday'' \<Longrightarrow> cell_value (sel\<lparr>is_holiday := b\<rparr>) c = cell_value sel c"
  by (simp add: cell_value_def weather_col_def flavor_col_def location_col_def)

lemma cell_value_social_absent:
  "c \<noteq> ''social_media_mentions'' \<Longrightarrow> cell_value (sel\<lparr>social_mentions := n\<rparr>) c = cell_value sel c"
  by (simp add: cell_value_def weather_col_def flavor_col_def location_col_def)

lemma map_cell_value_cong:
  "(\<And>c. c \<in> set S \<Longrightarrow> f c = g c) \<Longrightarrow> map (\<lambda>c. (c, f c :: int)) S = map (\<lambda>c. (c, g c)) S"
  by simp

text \<open>
  C2. When \<open>holiday\<close> is not a name of the schema, encoding succeeds, returns the
  schema's columns in order, and returns the same frame whatever the holiday flag is;
  likewise for \<open>social_media_mentions\<close> and the mention count.
\<close>

theorem encode_numeric_absent:
  assumes "distinct S"
  shows "(''holiday'' \<notin> set S \<longrightarrow>
            (\<exists>fr. encode sel S = Inr fr \<and> columns fr = S
                \<and> (\<forall>b. encode (sel\<lparr>is_holiday := b\<rparr>) S = Inr fr)))
       \<and> (''social_media_mentions'' \<notin> set S \<longrightarrow>
            (\<exists>fr. encode sel S = Inr fr \<and> columns fr = S
                \<and> (\<forall>n. encode (sel\<lparr>social_mentions := n\<rparr>) S = Inr fr)))"
proof -
  let ?fr = "map (\<lambda>c. (c, cell_value sel c)) S"
  have e: "encode sel S = Inr ?fr"
    by (rule encode_distinct [OF assms])
  have c: "columns ?fr = S"
    by (simp add: columns_def comp_def)
  have h: "encode (sel\<lparr>is_holiday := b\<rparr>) S = Inr ?fr" if "''holiday'' \<notin> set S" for b
  proof -
    have "map (\<lambda>c. (c, cell_value (sel\<lparr>is_holiday := b\<rparr>) c)) S = ?fr"
      using that by (intro map_cell_value_cong cell_value_holiday_absent) auto
    then show ?thesis using encode_distinct [OF assms, of "sel\<lparr>is_holiday := b\<rparr>"] by simp
  qed
  have m: "encode (sel\<lparr>social_mentions := n\<rparr>) S = Inr ?fr"
    if "''social_media_mentions'' \<notin> set S" for n
  proof -
    have "map (\<lambda>c. (c, cell_value (sel\<lparr>social_mentions := n\<rparr>) c)) S = ?fr"
      using that by (intro map_cell_value_cong cell_value_social_absent) auto
    then show ?thesis using encode_distinct [OF assms, of "sel\<lparr>social_mentions := n\<rparr>"] by simp
  qed
  show ?thesis using e c h m by blast
qed

theorem encode_numeric_absent_witness:
  "distinct [''weather_Sunny'', ''flavor_Oreo'']
   \<and> encode oreo_selection [''weather_Sunny'', ''flavor_Oreo'']
       = Inr [(''weather_Sunny'', 1), (''flavor_Oreo'', 1)]
   \<and> encode (oreo_selection\<lparr>is_holiday := False\<rparr>) [''weather_Sunny'', ''flavor_Oreo'']
       = Inr [(''weather_Sunny'', 1), (''flavor_Oreo'', 1)]
   \<and> encode (oreo_selection\<lparr>social_mentions := 7\<rparr>) [''weather_Sunny'', ''flavor_Oreo'']
       = Inr [(''weather_Sunny'', 1), (''flavor_Oreo'', 1)]"
proof -
  have d: "distinct [''weather_Sunny'', ''flavor_Oreo'']" by simp
  have h: "''holiday'' \<notin> set [''weather_Sunny'', ''flavor_Oreo'']" by simp
  have m: "''social_media_mentions'' \<notin> set [''weather_Sunny'', ''flavor_Oreo'']" by simp
  have e: "encode oreo_selection [''weather_Sunny'', ''flavor_Oreo'']
       = Inr [(''weather_Sunny'', 1), (''flavor_Oreo'', 1)]"
    by (simp add: encode_def Let_def DataFrame_def setitem_def getitem_list_def columns_def
        oreo_selection_def weather_col_def flavor_col_def location_col_def int_of_bool_def)
  from encode_numeric_absent [OF d, of oreo_selection] h m e
  show ?thesis by auto
qed

text \<open>
  C7. When a derived indicator name is not a name of the schema, encoding succeeds and
  the frame returned is the one determined by the remaining components of the
  selection alone: the absent component does not occur in it.
\<close>

theorem encode_indicator_absent:
  assumes "distinct S"
  shows "(weather_col sel \<notin> set S \<longrightarrow>
            encode sel S = Inr (map (\<lambda>c. (c,
               if c = flavor_col sel \<or> c = location_col sel then 1
               else if c = ''social_media_mentions'' then social_mentions sel
               else if c = ''holiday'' then int_of_bool (is_holiday sel)
               else 0)) S))
       \<and> (flavor_col sel \<notin> set S \<longrightarrow>
            encode sel S = Inr (map (\<lambda>c. (c,
               if c = weather_col sel \<or> c = location_col sel then 1
               else if c = ''social_media_mentions'' then social_mentions sel
               else if c = ''holiday'' then int_of_bool (is_holiday sel)
               else 0)) S))
       \<and> (location_col sel \<notin> set S \<longrightarrow>
            encode sel S = Inr (map (\<lambda>c. (c,
               if c = weather_col sel \<or> c = flavor_col sel then 1
               else if c = ''social_media_mentions'' then social_mentions sel
               else if c = ''holiday'' then int_of_bool (is_holiday sel)
               else 0)) S))"
proof -
  have e: "encode sel S = Inr (map (\<lambda>c. (c, cell_value sel c)) S)"
    by (rule encode_distinct [OF assms])
  have w: "map (\<lambda>c. (c, cell_value sel c)) S = map (\<lambda>c. (c,
               if c = flavor_col sel \<or> c = location_col sel then 1
               else if c = ''social_media_mentions'' then social_mentions sel
               else if c = ''holiday'' then int_of_bool (is_holiday sel)
               else 0)) S" if "weather_col sel \<notin> set S"
    using that by (intro map_cell_value_cong) (auto simp: cell_value_def)
  have f: "map (\<lambda>c. (c, cell_value sel c)) S = map (\<lambda>c. (c,
               if c = weather_col sel \<or> c = location_col sel then 1
               else if c = ''social_media_mentions'' then social_mentions sel
               else if c = ''holiday'' then int_of_bool (is_holiday sel)
               else 0)) S" if "flavor_col sel \<notin> set S"
    using that by (intro map_cell_value_cong) (auto simp: cell_value_def)
  have l: "map (\<lambda>c. (c, cell_value sel c)) S = map (\<lambda>c. (c,
               if c = weather_col sel \<or> c = flavor_col sel then 1
               else if c = ''social_media_mentions'' then social_mentions sel
               else if c = ''holiday'' then int_of_bool (is_holiday sel)
               else 0)) S" if "location_col sel \<notin> set S"
    using that by (intro map_cell_value_cong) (auto simp: cell_value_def)
  show ?thesis unfolding e using w f l by simp
qed

theorem encode_indicator_absent_witness:
  "distinct [''holiday'', ''weather_Rainy'', ''flavor_Oreo'', ''location_Provo'']
   \<and> weather_col oreo_selection \<notin> set [''holiday'', ''weather_Rainy'', ''flavor_Oreo'', ''location_Provo'']
   \<and> encode oreo_selection [''holiday'', ''weather_Rainy'', ''flavor_Oreo'', ''location_Provo'']
       = Inr [(''holiday'', 1), (''weather_Rainy'', 0), (''flavor_Oreo'', 1), (''location_Provo'', 1)]"
  using encode_indicator_absent [of "[''holiday'', ''weather_Rainy'', ''flavor_Oreo'', ''location_Provo'']" oreo_selection]
  by (simp add: oreo_selection_def weather_col_def flavor_col_def location_col_def int_of_bool_def)


section \<open>Properties of the recommendation arithmetic\<close>










subsection \<open>A zero average\<close>












section \<open>Properties of the data loader\<close>

lemma labels_rename:
  "labels (rename d old new) = map (\<lambda>c. if c = old then new else c) (labels d)"
  by (simp add: labels_def rename_def comp_def case_prod_beta)

lemma contents_rename: "map snd (cols (rename d old new)) = map snd (cols d)"
  by (simp add: rename_def comp_def case_prod_beta)

lemma randint_range:
  assumes "low < high" and "v \<in> set (randint low high n raw)"
  shows "low \<le> v \<and> v < high"
proof -
  from assms(2) obtain i where v: "v = low + int (raw i) mod (high - low)"
    by (auto simp: randint_def)
  have "0 \<le> int (raw i) mod (high - low)" and "int (raw i) mod (high - low) < high - low"
    using assms(1) by simp_all
  then show ?thesis unfolding v by simp
qed

lemma length_randint: "length (randint low high n raw) = n"
  by (simp add: randint_def)

text \<open>
  C6. For every table that could be read, \<open>load_data\<close> returns a dataset that has a
  column \<open>units_sold\<close>. If the table had a column \<open>sales\<close>, that label (and nothing
  else) has become \<open>units_sold\<close>. If it had neither \<open>sales\<close> nor \<open>units_sold\<close>, a
  column \<open>units_sold\<close> has been appended that holds, for every row, an integer from
  50 up to but not including 200.
\<close>

theorem load_data_units_sold:
  "\<exists>d. load_data (Inr src) raw = Inr d
      \<and> ''units_sold'' \<in> set (labels d)
      \<and> (''sales'' \<in> set (labels src) \<longrightarrow>
            labels d = map (\<lambda>c. if c = ''sales'' then ''units_sold'' else c) (labels src)
            \<and> ''sales'' \<notin> set (labels d)
            \<and> map snd (cols d) = map snd (cols src) \<and> n_rows d = n_rows src)
      \<and> (''sales'' \<notin> set (labels src) \<and> ''units_sold'' \<notin> set (labels src) \<longrightarrow>
            (\<exists>vs. cols d = cols src @ [(''units_sold'', vs)] \<and> n_rows d = n_rows src
               \<and> length vs = n_rows src
               \<and> (\<forall>v \<in> set vs. \<exists>k. v = IntCell k \<and> 50 \<le> k \<and> k < 200)))"
proof (cases "''sales'' \<in> set (labels src)")
  case True
  let ?d = "rename src ''sales'' ''units_sold''"
  have "load_data (Inr src) raw = Inr ?d"
    using True by (simp add: load_data_def)
  moreover have "labels ?d = map (\<lambda>c. if c = ''sales'' then ''units_sold'' else c) (labels src)"
    by (rule labels_rename)
  moreover from this True have "''units_sold'' \<in> set (labels ?d)" and "''sales'' \<notin> set (labels ?d)"
    by auto
  moreover have "map snd (cols ?d) = map snd (cols src)"
    by (rule contents_rename)
  moreover have "n_rows ?d = n_rows src"
    by (simp add: rename_def)
  ultimately show ?thesis using True by blast
next
  case False
  show ?thesis
  proof (cases "''units_sold'' \<in> set (labels src)")
    case True
    then show ?thesis using False by (simp add: load_data_def)
  next
    case no_units: False
    let ?vs = "map IntCell (randint 50 200 (n_rows src) raw)"
    let ?d = "set_column src ''units_sold'' ?vs"
    have l: "load_data (Inr src) raw = Inr ?d"
      using False no_units by (simp add: load_data_def)
    have c: "cols ?d = cols src @ [(''units_sold'', ?vs)]" and n: "n_rows ?d = n_rows src"
      using no_units by (simp_all add: set_column_def)
    have u: "''units_sold'' \<in> set (labels ?d)"
      unfolding labels_def c by simp
    have len: "length ?vs = n_rows src"
      by (simp add: length_randint)
    have r: "\<forall>v \<in> set ?vs. \<exists>k. v = IntCell k \<and> 50 \<le> k \<and> k < 200"
      using randint_range [of 50 200 _ "n_rows src" raw] by auto
    from l c n u len r False show ?thesis by blast
  qed
qed

theorem load_data_units_sold_witness:
  "''sales'' \<notin> set (labels flavor_only_df) \<and> ''units_sold'' \<notin> set (labels flavor_only_df)
   \<and> load_data (Inr flavor_only_df) counting_raw =
       Inr \<lparr>n_rows = 2, cols = [(''flavor'', [StrCell ''Oreo'', StrCell ''Pink Sugar'']),
                                (''units_sold'', [IntCell 199, IntCell 50])]\<rparr>"
proof -
  have a: "''sales'' \<notin> set (labels flavor_only_df)" "''units_sold'' \<notin> set (labels flavor_only_df)"
    by (simp_all add: labels_def flavor_only_df_def)
  have v: "load_data (Inr flavor_only_df) counting_raw =
       Inr \<lparr>n_rows = 2, cols = [(''flavor'', [StrCell ''Oreo'', StrCell ''Pink Sugar'']),
                                (''units_sold'', [IntCell 199, IntCell 50])]\<rparr>"
    by (simp add: load_data_def a set_column_def)
       (simp add: flavor_only_df_def randint_def counting_raw_def upt_rec numeral_2_eq_2)
  from load_data_units_sold [of flavor_only_df counting_raw] a v show ?thesis by simp
qed


section \<open>Properties of a press of the button\<close>





text \<open>
  C10. A prediction equal to 0 is handled exactly as an absent prediction: nothing is
  shown. In particular this happens with a model that predicts 0 without raising.
\<close>

theorem zero_prediction_absent:
  "render s sel (Some 0) = render s sel None
   \<and> render s sel None = (Inr None, s)
   \<and> make_prediction (const_model 0) (feature_columns s) sel = Some 0
   \<and> generate_prediction (s\<lparr>model := const_model 0\<rparr>) sel = (Inr None, s\<lparr>model := const_model 0\<rparr>)"
  by (simp add: render_def truthy_def generate_prediction_def make_prediction_const)

end
